theory Spec2Isabelle
  imports Main
begin

section \<open>Values and documents exchanged with the shadow service\<close>

text \<open>
  The value of the tracked property arrives as decoded JSON or as a line typed by the
  user. The scalars are modelled: \<open>None\<close>, booleans, integers and strings. The
  handlers use three Python operations on such a value: the identity test
  \<open>is None\<close>, the truth test \<open>if value:\<close> and the comparison \<open>==\<close>, under which
  \<open>True == 1\<close> and \<open>False == 0\<close> hold.
\<close>

datatype pyval = PNone | PBool bool | PInt int | PStr string

fun truthy :: "pyval \<Rightarrow> bool" where
  "truthy PNone = False"
| "truthy (PBool b) = b"
| "truthy (PInt i) = (i \<noteq> 0)"
| "truthy (PStr s) = (s \<noteq> [])"

fun py_num :: "pyval \<Rightarrow> int option" where
  "py_num (PBool b) = Some (if b then 1 else 0)"
| "py_num (PInt i) = Some i"
| "py_num PNone = None"
| "py_num (PStr s) = None"

fun py_eq :: "pyval \<Rightarrow> pyval \<Rightarrow> bool" where
  "py_eq PNone w = (w = PNone)"
| "py_eq (PStr s) w = (w = PStr s)"
| "py_eq v w = (case py_num w of None \<Rightarrow> False | Some j \<Rightarrow> py_num v = Some j)"

text \<open>
  A JSON object is a dictionary from property names to values, kept as an association
  list read with \<open>map_of\<close>. A key that is present with the value \<open>null\<close> is the pair
  \<open>(k, PNone)\<close>; \<open>dict_get\<close> is Python's \<open>d.get(k)\<close>, which answers \<open>None\<close> for a
  missing key as well. A section of a document that is missing is \<open>None\<close>; a section
  is true in a condition when it is present and not the empty dictionary.
\<close>

type_synonym pydict = "(string \<times> pyval) list"

definition dict_get :: "pydict \<Rightarrow> string \<Rightarrow> pyval" where
  "dict_get d k = (case map_of d k of None \<Rightarrow> PNone | Some v \<Rightarrow> v)"

record shadow_state =
  desired :: "pydict option"
  reported :: "pydict option"

record shadow_state_with_delta = shadow_state +
  delta :: "pydict option"

text \<open>
  The three messages have a field called \<open>state\<close> and the error a field \<open>code\<close>;
  the fields are named apart here: \<open>get_state\<close> of a GetShadowResponse,
  \<open>delta_state\<close> of a ShadowDeltaEvent, \<open>update_state\<close> of an UpdateShadowResponse,
  \<open>req_thing_name\<close> and \<open>req_state\<close> of an UpdateShadowRequest.
\<close>

record get_shadow_response =
  get_state :: "shadow_state_with_delta option"

record shadow_delta_event =
  delta_state :: "pydict option"

record update_shadow_response =
  update_state :: "shadow_state option"

record error_response =
  code :: int
  message :: string

record update_shadow_request =
  req_thing_name :: string
  req_state :: shadow_state

section \<open>Globals, console output and calls into the client\<close>

text \<open>
  What the sample prints, one constructor for each \<open>print\<close> of the source, and the
  reason handed to \<open>exit\<close>, one constructor for each call site. An exception is kept
  as its \<open>repr\<close>, a string.
\<close>

datatype exit_msg =
    ErrorGettingShadow string
  | GetRequestRejected int string
  | ErrorProcessingDelta string
  | FailedToPublishUpdate string
  | UpdateRequestRejected int string
  | ErrorIssuingUpdate string
  | UserHasQuit
  | ExceptionOnInputThread string
  | StartupError string

datatype message =
    ExitingSample exit_msg
  | Disconnecting
  | DisconnectedWithCode int
  | FinishedGettingInitialState
  | IgnoringInitialQuery
  | ShadowContainsDelta pyval
  | ShadowContainsReported pyval
  | ShadowLacksProperty
  | ThingHasNoShadow
  | ReceivedDeltaEvent
  | DeltaReportsDeleted
  | DeltaReportsDesired pyval
  | DeltaDidNotReport
  | UpdateRequestPublished
  | FinishedUpdating pyval
  | EnterDesiredValue
  | LocalValueAlready pyval
  | ChangedLocalValue pyval
  | UpdatingReported pyval
  | SubscribingToDelta
  | SubscribingToUpdate
  | SubscribingToGet
  | RequestingCurrentState
  | LaunchingInputThread

datatype client_call =
    PublishUpdate update_shadow_request
  | Disconnect
  | SubscribeToDeltaEvents
  | SubscribeToUpdateAccepted
  | SubscribeToUpdateRejected
  | SubscribeToGetAccepted
  | SubscribeToGetRejected
  | PublishGet

text \<open>
  Everything the sample does to the outside, and each assignment to \<open>shadow_value\<close>,
  is appended to a trace in program order, so that a statement about what was published,
  and about what happened before what, is a statement about the trace.
\<close>

datatype effect =
    Print message
  | Assign pyval
  | Call client_call

record globals =
  thing_name :: string
  shadow_property :: string
  shadow_value :: pyval
  disconnect_called :: bool
  is_sample_done :: bool
  trace :: "effect list"

definition SHADOW_VALUE_DEFAULT :: pyval where
  "SHADOW_VALUE_DEFAULT = PStr ''off''"

definition emit :: "effect \<Rightarrow> globals \<Rightarrow> globals" where
  "emit e s = s\<lparr>trace := trace s @ [e]\<rparr>"

definition print :: "message \<Rightarrow> globals \<Rightarrow> globals" where
  "print m s = emit (Print m) s"

text \<open>
  The shadow client is outside the sample. Of \<open>shadow_client.publish_update(request)\<close>
  the sample sees whether the call raises: the client is the function that answers, for
  a request, \<open>Some e\<close> when the call raises \<open>e\<close> and \<open>None\<close> when it returns a future.
  \<open>mqtt_connection.disconnect()\<close> returns.
\<close>

type_synonym shadow_client = "update_shadow_request \<Rightarrow> string option"

section \<open>The sample's functions\<close>

definition exit :: "exit_msg \<Rightarrow> globals \<Rightarrow> globals" where
  "exit msg s =
     (let s1 = print (ExitingSample msg) s;
          s2 = print Disconnecting s1;
          s3 = s2\<lparr>disconnect_called := True\<rparr>
      in emit (Call Disconnect) s3)"

definition on_disconnected :: "int \<Rightarrow> globals \<Rightarrow> globals \<times> bool" where
  "on_disconnected return_code s =
     (let s1 = print (DisconnectedWithCode return_code) s
      in if disconnect_called s1 then (s1\<lparr>is_sample_done := True\<rparr>, False)
         else (s1, True))"

definition set_local_value_due_to_initial_query :: "pyval \<Rightarrow> globals \<Rightarrow> globals" where
  "set_local_value_due_to_initial_query reported_value s =
     (let s1 = emit (Assign reported_value) (s\<lparr>shadow_value := reported_value\<rparr>)
      in print EnterDesiredValue s1)"

definition change_shadow_value :: "shadow_client \<Rightarrow> pyval \<Rightarrow> globals \<Rightarrow> globals" where
  "change_shadow_value client v s =
     (if py_eq (shadow_value s) v then
        print EnterDesiredValue (print (LocalValueAlready v) s)
      else
        (let s1 = print (ChangedLocalValue v) s;
             s2 = emit (Assign v) (s1\<lparr>shadow_value := v\<rparr>);
             s3 = print (UpdatingReported v) s2;
             request = \<lparr>req_thing_name = thing_name s3,
                        req_state = \<lparr>desired = Some [(shadow_property s3, v)],
                                      reported = Some [(shadow_property s3, v)]\<rparr>\<rparr>;
             s4 = emit (Call (PublishUpdate request)) s3
         in case client request of
              None \<Rightarrow> s4
            | Some e \<Rightarrow> exit (ErrorIssuingUpdate e) s4))"

text \<open>
  \<open>on_get_accepted\<close> and \<open>on_delta_event\<close> wrap their bodies in \<open>try\<close>. With
  the documents typed as above nothing in those bodies raises: \<open>change_shadow_value\<close>
  catches what \<open>publish_update\<close> raises, and the dictionary reads are \<open>get\<close> or
  come after a test for the key. Their \<open>except\<close> branches (lines 125 and 153) are
  not reached and have no equation.

  \<open>on_get_accepted\<close> leaves by \<open>return\<close> from inside nested conditions; each place
  the control falls through to is a function of its own: the reported section
  (lines 114 to 119) and the default (lines 121 to 123).
\<close>

definition get_accepted_default :: "shadow_client \<Rightarrow> globals \<Rightarrow> globals" where
  "get_accepted_default client s =
     change_shadow_value client SHADOW_VALUE_DEFAULT (print ShadowLacksProperty s)"

definition get_accepted_reported ::
  "shadow_client \<Rightarrow> shadow_state_with_delta \<Rightarrow> globals \<Rightarrow> globals" where
  "get_accepted_reported client st s =
     (case reported st of
        None \<Rightarrow> get_accepted_default client s
      | Some r \<Rightarrow>
          if r \<noteq> [] \<and> truthy (dict_get r (shadow_property s)) then
            set_local_value_due_to_initial_query (dict_get r (shadow_property s))
              (print (ShadowContainsReported (dict_get r (shadow_property s))) s)
          else get_accepted_default client s)"

definition get_accepted_delta ::
  "shadow_client \<Rightarrow> shadow_state_with_delta \<Rightarrow> globals \<Rightarrow> globals" where
  "get_accepted_delta client st s =
     (case delta st of
        None \<Rightarrow> get_accepted_reported client st s
      | Some d \<Rightarrow>
          if d \<noteq> [] \<and> truthy (dict_get d (shadow_property s)) then
            change_shadow_value client (dict_get d (shadow_property s))
              (print (ShadowContainsDelta (dict_get d (shadow_property s))) s)
          else get_accepted_reported client st s)"

definition on_get_accepted :: "shadow_client \<Rightarrow> get_shadow_response \<Rightarrow> globals \<Rightarrow> globals" where
  "on_get_accepted client response s =
     (let s1 = print FinishedGettingInitialState s
      in if shadow_value s1 \<noteq> PNone then print IgnoringInitialQuery s1
         else (case get_state response of
                 None \<Rightarrow> get_accepted_default client s1
               | Some st \<Rightarrow> get_accepted_delta client st s1))"

definition on_get_rejected :: "shadow_client \<Rightarrow> error_response \<Rightarrow> globals \<Rightarrow> globals" where
  "on_get_rejected client error s =
     (if code error = 404 then
        change_shadow_value client SHADOW_VALUE_DEFAULT (print ThingHasNoShadow s)
      else exit (GetRequestRejected (code error) (message error)) s)"

definition on_delta_event :: "shadow_client \<Rightarrow> shadow_delta_event \<Rightarrow> globals \<Rightarrow> globals" where
  "on_delta_event client ev s =
     (let s1 = print ReceivedDeltaEvent s
      in case delta_state ev of
           None \<Rightarrow> print DeltaDidNotReport s1
         | Some d \<Rightarrow>
             (case map_of d (shadow_property s1) of
                None \<Rightarrow> print DeltaDidNotReport s1
              | Some v \<Rightarrow>
                  if v = PNone then
                    change_shadow_value client SHADOW_VALUE_DEFAULT (print DeltaReportsDeleted s1)
                  else change_shadow_value client v (print (DeltaReportsDesired v) s1)))"

definition on_publish_update :: "string option \<Rightarrow> globals \<Rightarrow> globals" where
  "on_publish_update future_result s =
     (case future_result of
        None \<Rightarrow> print UpdateRequestPublished s
      | Some e \<Rightarrow> exit (FailedToPublishUpdate e) s)"

definition on_update_rejected :: "error_response \<Rightarrow> globals \<Rightarrow> globals" where
  "on_update_rejected error s =
     exit (UpdateRequestRejected (code error) (message error)) s"

text \<open>
  \<open>on_update_accepted\<close> reads \<open>response.state.reported[shadow_property]\<close> outside
  any \<open>try\<close>: a response without a state, without a reported section or without the
  property raises, and the exception leaves the callback.
\<close>

datatype py_error = AttributeError | TypeError | KeyError

definition on_update_accepted :: "update_shadow_response \<Rightarrow> globals \<Rightarrow> py_error + globals" where
  "on_update_accepted response s =
     (case update_state response of
        None \<Rightarrow> Inl AttributeError
      | Some st \<Rightarrow>
          (case reported st of
             None \<Rightarrow> Inl TypeError
           | Some r \<Rightarrow>
               (case map_of r (shadow_property s) of
                  None \<Rightarrow> Inl KeyError
                | Some v \<Rightarrow> Inr (print EnterDesiredValue (print (FinishedUpdating v) s)))))"

text \<open>
  The input thread reads a line or fails to (end of input, a closed console). One turn
  of its loop answers the new globals and whether the loop goes on; the thread is the
  loop over the reads it is given, and with no read left it waits in \<open>input()\<close>.
\<close>

datatype console_read = Line string | ReadError string

definition user_input_iteration ::
  "shadow_client \<Rightarrow> console_read \<Rightarrow> globals \<Rightarrow> globals \<times> bool" where
  "user_input_iteration client r s =
     (case r of
        ReadError e \<Rightarrow> (exit (ExceptionOnInputThread e) s, False)
      | Line new_value \<Rightarrow>
          if new_value \<in> set [''exit'', ''quit''] then (exit UserHasQuit s, False)
          else (change_shadow_value client (PStr new_value) s, True))"

fun user_input_thread_fn :: "shadow_client \<Rightarrow> console_read list \<Rightarrow> globals \<Rightarrow> globals" where
  "user_input_thread_fn client [] s = s"
| "user_input_thread_fn client (r # rs) s =
     (case user_input_iteration client r s of
        (s', True) \<Rightarrow> user_input_thread_fn client rs s'
      | (s', False) \<Rightarrow> s')"

text \<open>
  The globals when the callbacks are wired: lines 54 to 66, with the thing name and the
  property name read from the command line (lines 229 and 230).
\<close>

definition initial_globals :: "string \<Rightarrow> string \<Rightarrow> globals" where
  "initial_globals tn sp =
     \<lparr>thing_name = tn, shadow_property = sp, shadow_value = PNone,
      disconnect_called = False, is_sample_done = False, trace = []\<rparr>"

section \<open>Sequences of operations\<close>

text \<open>
  After startup the sample only reacts: the client delivers callbacks and the input
  thread delivers lines, one at a time as far as the globals are concerned. An
  operation is one such delivery, and \<open>run\<close> performs a sequence of them, each with
  the behaviour the client shows during it. An exception that leaves
  \<open>on_update_accepted\<close> changes nothing.
\<close>

datatype operation =
    GetAccepted get_shadow_response
  | GetRejected error_response
  | DeltaEvent shadow_delta_event
  | PublishUpdateDone "string option"
  | UpdateAccepted update_shadow_response
  | UpdateRejected error_response
  | UserInput console_read
  | Disconnected int

fun deliver :: "shadow_client \<Rightarrow> operation \<Rightarrow> globals \<Rightarrow> globals" where
  "deliver client (GetAccepted response) s = on_get_accepted client response s"
| "deliver client (GetRejected error) s = on_get_rejected client error s"
| "deliver client (DeltaEvent ev) s = on_delta_event client ev s"
| "deliver client (PublishUpdateDone res) s = on_publish_update res s"
| "deliver client (UpdateAccepted response) s =
     (case on_update_accepted response s of Inl e \<Rightarrow> s | Inr s' \<Rightarrow> s')"
| "deliver client (UpdateRejected error) s = on_update_rejected error s"
| "deliver client (UserInput r) s = fst (user_input_iteration client r s)"
| "deliver client (Disconnected return_code) s = fst (on_disconnected return_code s)"

fun run :: "(shadow_client \<times> operation) list \<Rightarrow> globals \<Rightarrow> globals" where
  "run [] s = s"
| "run ((client, op) # ops) s = run ops (deliver client op s)"

section \<open>Reading a trace\<close>

text \<open>
  \<open>new_effects s s'\<close> is what was appended to the trace between \<open>s\<close> and \<open>s'\<close>;
  \<open>published\<close> keeps the update requests handed to the client and \<open>disconnects\<close>
  counts the disconnect requests.
\<close>

definition new_effects :: "globals \<Rightarrow> globals \<Rightarrow> effect list" where
  "new_effects s s' = drop (length (trace s)) (trace s')"

fun published :: "effect list \<Rightarrow> update_shadow_request list" where
  "published [] = []"
| "published (Call (PublishUpdate r) # es) = r # published es"
| "published (e # es) = published es"

fun disconnects :: "effect list \<Rightarrow> nat" where
  "disconnects [] = 0"
| "disconnects (Call Disconnect # es) = Suc (disconnects es)"
| "disconnects (e # es) = disconnects es"

text \<open>
  The request that \<open>change_shadow_value\<close> builds for a value (lines 193 to 199), and
  the value a section of a snapshot holds for a key (\<open>None\<close> when the section or the
  key is missing), as the statements below write them.
\<close>

abbreviation update_request :: "globals \<Rightarrow> pyval \<Rightarrow> update_shadow_request" where
  "update_request s v \<equiv>
     \<lparr>req_thing_name = thing_name s,
      req_state = \<lparr>desired = Some [(shadow_property s, v)],
                    reported = Some [(shadow_property s, v)]\<rparr>\<rparr>"

definition section_value :: "pydict option \<Rightarrow> string \<Rightarrow> pyval" where
  "section_value sec k = (case sec of None \<Rightarrow> PNone | Some d \<Rightarrow> dict_get d k)"

text \<open>
  \<open>assigned_before_publish p latest es\<close> reads a trace from left to right, remembering
  the value of the latest assignment to \<open>shadow_value\<close>: every update request in it
  comes after an assignment, and sets both the reported and the desired section to
  \<open>{p: v}\<close> for the value \<open>v\<close> assigned last.
\<close>

fun assigned_before_publish :: "string \<Rightarrow> pyval option \<Rightarrow> effect list \<Rightarrow> bool" where
  "assigned_before_publish p latest [] = True"
| "assigned_before_publish p latest (Assign v # es) = assigned_before_publish p (Some v) es"
| "assigned_before_publish p latest (Call (PublishUpdate r) # es) =
     ((case latest of
         None \<Rightarrow> False
       | Some v \<Rightarrow> reported (req_state r) = Some [(p, v)] \<and> desired (req_state r) = Some [(p, v)])
      \<and> assigned_before_publish p latest es)"
| "assigned_before_publish p latest (e # es) = assigned_before_publish p latest es"

text \<open>
  What every operation does to the globals, whatever its outcome: it appends to the
  trace, and what it appends is in order by itself; it leaves the property name alone;
  and it does not take a stored value away.
\<close>

definition orderly_step :: "globals \<Rightarrow> globals \<Rightarrow> bool" where
  "orderly_step s s' \<longleftrightarrow>
     (\<exists>es. trace s' = trace s @ es
           \<and> (\<forall>latest. assigned_before_publish (shadow_property s) latest es))
     \<and> shadow_property s' = shadow_property s
     \<and> (shadow_value s \<noteq> PNone \<longrightarrow> shadow_value s' \<noteq> PNone)"

text \<open>A client whose \<open>publish_update\<close> always returns a future.\<close>

definition reliable_client :: shadow_client where
  "reliable_client request = None"

text \<open>The globals of a session for the thing \<open>thing\<close> that tracks \<open>color\<close>.\<close>

abbreviation sample_start :: globals where
  "sample_start \<equiv> initial_globals ''thing'' ''color''"

section \<open>The startup sequence beside the callbacks\<close>

text \<open>
  Lines 267 to 327 run on the main thread while the client delivers callbacks on its
  own thread. The main thread is a program counter over its statements; a call that
  returns a future leaves it pending, the client resolves it later, and \<open>.result()\<close>
  lets the main thread pass once the future has succeeded, or raises what it failed
  with into the \<open>except\<close> of line 323. The subscribe and publish calls themselves
  return.
\<close>

datatype future = NotIssued | Pending | Succeeded | Failed string

datatype future_id =
    DeltaSubscribed
  | UpdateAcceptedSubscribed
  | UpdateRejectedSubscribed
  | GetAcceptedSubscribed
  | GetRejectedSubscribed
  | PublishGetDone

datatype main_pc =
    SubscribeDelta
  | AwaitDelta
  | SubscribeUpdateAccepted
  | SubscribeUpdateRejected
  | AwaitUpdateAccepted
  | AwaitUpdateRejected
  | SubscribeGetAccepted
  | SubscribeGetRejected
  | AwaitGetAccepted
  | AwaitGetRejected
  | IssueGet
  | AwaitGet
  | LaunchInputThread
  | WaitSampleDone
  | Finished

record sys =
  globs :: globals
  pc :: main_pc
  delta_subscribed_future :: future
  update_accepted_subscribed_future :: future
  update_rejected_subscribed_future :: future
  get_accepted_subscribed_future :: future
  get_rejected_subscribed_future :: future
  publish_get_future :: future
  input_thread_running :: bool

fun future_of :: "future_id \<Rightarrow> sys \<Rightarrow> future" where
  "future_of DeltaSubscribed y = delta_subscribed_future y"
| "future_of UpdateAcceptedSubscribed y = update_accepted_subscribed_future y"
| "future_of UpdateRejectedSubscribed y = update_rejected_subscribed_future y"
| "future_of GetAcceptedSubscribed y = get_accepted_subscribed_future y"
| "future_of GetRejectedSubscribed y = get_rejected_subscribed_future y"
| "future_of PublishGetDone y = publish_get_future y"

fun set_future :: "future_id \<Rightarrow> future \<Rightarrow> sys \<Rightarrow> sys" where
  "set_future DeltaSubscribed f y = y\<lparr>delta_subscribed_future := f\<rparr>"
| "set_future UpdateAcceptedSubscribed f y = y\<lparr>update_accepted_subscribed_future := f\<rparr>"
| "set_future UpdateRejectedSubscribed f y = y\<lparr>update_rejected_subscribed_future := f\<rparr>"
| "set_future GetAcceptedSubscribed f y = y\<lparr>get_accepted_subscribed_future := f\<rparr>"
| "set_future GetRejectedSubscribed f y = y\<lparr>get_rejected_subscribed_future := f\<rparr>"
| "set_future PublishGetDone f y = y\<lparr>publish_get_future := f\<rparr>"

definition issue :: "client_call \<Rightarrow> future_id \<Rightarrow> main_pc \<Rightarrow> sys \<Rightarrow> sys" where
  "issue c f next y = set_future f Pending (y\<lparr>globs := emit (Call c) (globs y), pc := next\<rparr>)"

definition await :: "future_id \<Rightarrow> main_pc \<Rightarrow> sys \<Rightarrow> sys option" where
  "await f next y =
     (case future_of f y of
        Succeeded \<Rightarrow> Some (y\<lparr>pc := next\<rparr>)
      | Failed e \<Rightarrow> Some (y\<lparr>globs := exit (StartupError e) (globs y), pc := WaitSampleDone\<rparr>)
      | Pending \<Rightarrow> None
      | NotIssued \<Rightarrow> None)"

definition say :: "message \<Rightarrow> sys \<Rightarrow> sys" where
  "say m y = y\<lparr>globs := print m (globs y)\<rparr>"

fun main_step :: "main_pc \<Rightarrow> sys \<Rightarrow> sys option" where
  "main_step SubscribeDelta y =
     Some (issue SubscribeToDeltaEvents DeltaSubscribed AwaitDelta (say SubscribingToDelta y))"
| "main_step AwaitDelta y = await DeltaSubscribed SubscribeUpdateAccepted y"
| "main_step SubscribeUpdateAccepted y =
     Some (issue SubscribeToUpdateAccepted UpdateAcceptedSubscribed SubscribeUpdateRejected
             (say SubscribingToUpdate y))"
| "main_step SubscribeUpdateRejected y =
     Some (issue SubscribeToUpdateRejected UpdateRejectedSubscribed AwaitUpdateAccepted y)"
| "main_step AwaitUpdateAccepted y = await UpdateAcceptedSubscribed AwaitUpdateRejected y"
| "main_step AwaitUpdateRejected y = await UpdateRejectedSubscribed SubscribeGetAccepted y"
| "main_step SubscribeGetAccepted y =
     Some (issue SubscribeToGetAccepted GetAcceptedSubscribed SubscribeGetRejected
             (say SubscribingToGet y))"
| "main_step SubscribeGetRejected y =
     Some (issue SubscribeToGetRejected GetRejectedSubscribed AwaitGetAccepted y)"
| "main_step AwaitGetAccepted y = await GetAcceptedSubscribed AwaitGetRejected y"
| "main_step AwaitGetRejected y = await GetRejectedSubscribed IssueGet y"
| "main_step IssueGet y =
     Some (issue PublishGet PublishGetDone AwaitGet (say RequestingCurrentState y))"
| "main_step AwaitGet y = await PublishGetDone LaunchInputThread y"
| "main_step LaunchInputThread y =
     Some ((say LaunchingInputThread y)\<lparr>input_thread_running := True, pc := WaitSampleDone\<rparr>)"
| "main_step WaitSampleDone y =
     (if is_sample_done (globs y) then Some (y\<lparr>pc := Finished\<rparr>) else None)"
| "main_step Finished y = None"

text \<open>
  What can happen next. The main thread takes its next statement when it is not
  blocked; the client resolves a pending future; a callback is delivered once its
  subscription has succeeded (and, for the answers to a request, once a request went
  out); the input thread reads once it was launched and until it breaks out of its loop.
\<close>

datatype event =
    MainThread
  | Resolve future_id "string option"
  | Deliver shadow_client operation

fun deliverable :: "operation \<Rightarrow> sys \<Rightarrow> bool" where
  "deliverable (DeltaEvent ev) y = (delta_subscribed_future y = Succeeded)"
| "deliverable (GetAccepted response) y =
     (get_accepted_subscribed_future y = Succeeded \<and> publish_get_future y \<noteq> NotIssued)"
| "deliverable (GetRejected error) y =
     (get_rejected_subscribed_future y = Succeeded \<and> publish_get_future y \<noteq> NotIssued)"
| "deliverable (UpdateAccepted response) y =
     (update_accepted_subscribed_future y = Succeeded \<and> published (trace (globs y)) \<noteq> [])"
| "deliverable (UpdateRejected error) y =
     (update_rejected_subscribed_future y = Succeeded \<and> published (trace (globs y)) \<noteq> [])"
| "deliverable (PublishUpdateDone res) y = (published (trace (globs y)) \<noteq> [])"
| "deliverable (UserInput r) y = input_thread_running y"
| "deliverable (Disconnected return_code) y = True"

fun input_thread_after :: "shadow_client \<Rightarrow> operation \<Rightarrow> sys \<Rightarrow> bool" where
  "input_thread_after client (UserInput r) y = snd (user_input_iteration client r (globs y))"
| "input_thread_after client op y = input_thread_running y"

fun step :: "event \<Rightarrow> sys \<Rightarrow> sys option" where
  "step MainThread y = main_step (pc y) y"
| "step (Resolve f res) y =
     (if future_of f y = Pending
      then Some (set_future f (case res of None \<Rightarrow> Succeeded | Some e \<Rightarrow> Failed e) y)
      else None)"
| "step (Deliver client op) y =
     (if deliverable op y
      then Some (y\<lparr>globs := deliver client op (globs y),
                   input_thread_running := input_thread_after client op y\<rparr>)
      else None)"

fun exec :: "event list \<Rightarrow> sys \<Rightarrow> sys option" where
  "exec [] y = Some y"
| "exec (e # es) y = (case step e y of None \<Rightarrow> None | Some y' \<Rightarrow> exec es y')"

definition initial_sys :: "string \<Rightarrow> string \<Rightarrow> sys" where
  "initial_sys tn sp =
     \<lparr>globs = initial_globals tn sp, pc = SubscribeDelta,
      delta_subscribed_future = NotIssued,
      update_accepted_subscribed_future = NotIssued,
      update_rejected_subscribed_future = NotIssued,
      get_accepted_subscribed_future = NotIssued,
      get_rejected_subscribed_future = NotIssued,
      publish_get_future = NotIssued,
      input_thread_running = False\<rparr>"

text \<open>
  What holds of the main thread at every moment of every execution. Its statements are
  numbered in program order. A future is not issued before the statement that issues
  it, and has succeeded once the main thread is past its \<open>.result()\<close>; and the get
  request went out, and the input thread runs, only after the five subscriptions have
  succeeded.
\<close>

fun rank :: "main_pc \<Rightarrow> nat" where
  "rank SubscribeDelta = 0"
| "rank AwaitDelta = 1"
| "rank SubscribeUpdateAccepted = 2"
| "rank SubscribeUpdateRejected = 3"
| "rank AwaitUpdateAccepted = 4"
| "rank AwaitUpdateRejected = 5"
| "rank SubscribeGetAccepted = 6"
| "rank SubscribeGetRejected = 7"
| "rank AwaitGetAccepted = 8"
| "rank AwaitGetRejected = 9"
| "rank IssueGet = 10"
| "rank AwaitGet = 11"
| "rank LaunchInputThread = 12"
| "rank WaitSampleDone = 13"
| "rank Finished = 14"

definition subscriptions_succeeded :: "sys \<Rightarrow> bool" where
  "subscriptions_succeeded y \<longleftrightarrow>
     delta_subscribed_future y = Succeeded
     \<and> update_accepted_subscribed_future y = Succeeded
     \<and> update_rejected_subscribed_future y = Succeeded
     \<and> get_accepted_subscribed_future y = Succeeded
     \<and> get_rejected_subscribed_future y = Succeeded"

definition startup_inv :: "sys \<Rightarrow> bool" where
  "startup_inv y \<longleftrightarrow>
     (rank (pc y) \<le> 0 \<longrightarrow> delta_subscribed_future y = NotIssued)
     \<and> (rank (pc y) \<le> 2 \<longrightarrow> update_accepted_subscribed_future y = NotIssued)
     \<and> (rank (pc y) \<le> 3 \<longrightarrow> update_rejected_subscribed_future y = NotIssued)
     \<and> (rank (pc y) \<le> 6 \<longrightarrow> get_accepted_subscribed_future y = NotIssued)
     \<and> (rank (pc y) \<le> 7 \<longrightarrow> get_rejected_subscribed_future y = NotIssued)
     \<and> (rank (pc y) \<le> 10 \<longrightarrow>
          publish_get_future y = NotIssued \<and> Call PublishGet \<notin> set (trace (globs y)))
     \<and> (rank (pc y) \<le> 12 \<longrightarrow> \<not> input_thread_running y)
     \<and> (2 \<le> rank (pc y) \<and> rank (pc y) \<le> 12 \<longrightarrow> delta_subscribed_future y = Succeeded)
     \<and> (5 \<le> rank (pc y) \<and> rank (pc y) \<le> 12 \<longrightarrow>
          update_accepted_subscribed_future y = Succeeded)
     \<and> (6 \<le> rank (pc y) \<and> rank (pc y) \<le> 12 \<longrightarrow>
          update_rejected_subscribed_future y = Succeeded)
     \<and> (9 \<le> rank (pc y) \<and> rank (pc y) \<le> 12 \<longrightarrow>
          get_accepted_subscribed_future y = Succeeded)
     \<and> (10 \<le> rank (pc y) \<and> rank (pc y) \<le> 12 \<longrightarrow>
          get_rejected_subscribed_future y = Succeeded)
     \<and> (rank (pc y) = 12 \<longrightarrow> publish_get_future y = Succeeded)
     \<and> (publish_get_future y \<noteq> NotIssued \<longrightarrow> subscriptions_succeeded y)
     \<and> (Call PublishGet \<in> set (trace (globs y)) \<longrightarrow> subscriptions_succeeded y)
     \<and> (input_thread_running y \<longrightarrow>
          subscriptions_succeeded y \<and> publish_get_future y = Succeeded)"

section \<open>Basic facts\<close>

lemma py_eq_refl: "py_eq v v"
  by (cases v) auto

lemma published_append: "published (xs @ ys) = published xs @ published ys"
  by (induction xs rule: published.induct) auto

lemma disconnects_append: "disconnects (xs @ ys) = disconnects xs + disconnects ys"
  by (induction xs rule: disconnects.induct) auto

lemma print_eq: "print m s = s\<lparr>trace := trace s @ [Print m]\<rparr>"
  by (simp add: print_def emit_def)

lemma exit_eq:
  "exit msg s =
     s\<lparr>disconnect_called := True,
       trace := trace s @ [Print (ExitingSample msg), Print Disconnecting, Call Disconnect]\<rparr>"
  by (simp add: exit_def print_def emit_def)

lemma new_effects_append: "trace s' = trace s @ es \<Longrightarrow> new_effects s s' = es"
  by (simp add: new_effects_def)

text \<open>The three ways \<open>change_shadow_value\<close> can go, each as one update of the globals.\<close>

lemma change_unchanged:
  "py_eq (shadow_value s) v \<Longrightarrow>
   change_shadow_value client v s =
     s\<lparr>trace := trace s @ [Print (LocalValueAlready v), Print EnterDesiredValue]\<rparr>"
  by (simp add: change_shadow_value_def print_def emit_def)

lemma change_changed_ok:
  "\<not> py_eq (shadow_value s) v \<Longrightarrow> client (update_request s v) = None \<Longrightarrow>
   change_shadow_value client v s =
     s\<lparr>shadow_value := v,
       trace := trace s @ [Print (ChangedLocalValue v), Assign v, Print (UpdatingReported v),
                           Call (PublishUpdate (update_request s v))]\<rparr>"
  by (simp add: change_shadow_value_def print_def emit_def)

lemma change_changed_raise:
  "\<not> py_eq (shadow_value s) v \<Longrightarrow> client (update_request s v) = Some e \<Longrightarrow>
   change_shadow_value client v s =
     s\<lparr>shadow_value := v, disconnect_called := True,
       trace := trace s @ [Print (ChangedLocalValue v), Assign v, Print (UpdatingReported v),
                           Call (PublishUpdate (update_request s v)),
                           Print (ExitingSample (ErrorIssuingUpdate e)), Print Disconnecting,
                           Call Disconnect]\<rparr>"
  by (simp add: change_shadow_value_def print_def emit_def exit_def)

lemma change_cases:
  obtains (unchanged) "py_eq (shadow_value s) v"
      "change_shadow_value client v s =
         s\<lparr>trace := trace s @ [Print (LocalValueAlready v), Print EnterDesiredValue]\<rparr>"
    | (changed) "\<not> py_eq (shadow_value s) v"
      "change_shadow_value client v s =
         s\<lparr>shadow_value := v,
           trace := trace s @ [Print (ChangedLocalValue v), Assign v, Print (UpdatingReported v),
                               Call (PublishUpdate (update_request s v))]\<rparr>"
    | (raised) e where "\<not> py_eq (shadow_value s) v"
      "change_shadow_value client v s =
         s\<lparr>shadow_value := v, disconnect_called := True,
           trace := trace s @ [Print (ChangedLocalValue v), Assign v, Print (UpdatingReported v),
                               Call (PublishUpdate (update_request s v)),
                               Print (ExitingSample (ErrorIssuingUpdate e)), Print Disconnecting,
                               Call Disconnect]\<rparr>"
proof (cases "py_eq (shadow_value s) v")
  case True
  then show ?thesis using unchanged change_unchanged by blast
next
  case False
  show ?thesis
  proof (cases "client (update_request s v)")
    case None
    then show ?thesis using changed False change_changed_ok by blast
  next
    case (Some e)
    then show ?thesis using raised False change_changed_raise by blast
  qed
qed

lemma change_summary:
  "shadow_value (change_shadow_value client v s) =
     (if py_eq (shadow_value s) v then shadow_value s else v)
   \<and> shadow_property (change_shadow_value client v s) = shadow_property s
   \<and> thing_name (change_shadow_value client v s) = thing_name s
   \<and> published (new_effects s (change_shadow_value client v s)) =
       (if py_eq (shadow_value s) v then [] else [update_request s v])"
  by (rule change_cases [where s = s and v = v and client = client]) (simp_all add: new_effects_append)

lemma change_trace: "\<exists>es. trace (change_shadow_value client v s) = trace s @ es"
  by (rule change_cases [where s = s and v = v and client = client]) simp_all

section \<open>The change path\<close>

text \<open>
  C3. The change path reports Unchanged by printing "Local value is already" and
  Changed by printing "Changed local shadow value to". When the value equals the stored
  one (Python's \<open>==\<close>) nothing but the two printed lines happens: no assignment, no
  request. When it differs the value is stored and the request for it is handed to the
  client. So a request goes out exactly when Changed is reported. Called again with the
  same value, whatever the client did the first time, the path reports Unchanged,
  publishes nothing and leaves the globals but the trace as they were; the first call
  reports Changed whenever the value differs from the stored one.
\<close>

theorem change_shadow_value_publishes_iff_changed:
  "(py_eq (shadow_value s) v \<longrightarrow>
      change_shadow_value client v s =
        s\<lparr>trace := trace s @ [Print (LocalValueAlready v), Print EnterDesiredValue]\<rparr>)
   \<and> (\<not> py_eq (shadow_value s) v \<longrightarrow>
        shadow_value (change_shadow_value client v s) = v \<and>
        take 4 (new_effects s (change_shadow_value client v s)) =
          [Print (ChangedLocalValue v), Assign v, Print (UpdatingReported v),
           Call (PublishUpdate (update_request s v))] \<and>
        published (new_effects s (change_shadow_value client v s)) = [update_request s v])
   \<and> (published (new_effects s (change_shadow_value client v s)) \<noteq> [] \<longleftrightarrow>
        Print (ChangedLocalValue v) \<in> set (new_effects s (change_shadow_value client v s)))
   \<and> (Print (ChangedLocalValue v) \<in> set (new_effects s (change_shadow_value client v s)) \<longleftrightarrow>
        \<not> py_eq (shadow_value s) v)
   \<and> change_shadow_value client' v (change_shadow_value client v s) =
       (change_shadow_value client v s)
         \<lparr>trace := trace (change_shadow_value client v s) @
                     [Print (LocalValueAlready v), Print EnterDesiredValue]\<rparr>"
proof -
  have again: "py_eq (shadow_value (change_shadow_value client v s)) v"
    by (rule change_cases [where s = s and v = v and client = client])
      (simp_all add: py_eq_refl)
  have first:
    "(py_eq (shadow_value s) v \<longrightarrow>
        change_shadow_value client v s =
          s\<lparr>trace := trace s @ [Print (LocalValueAlready v), Print EnterDesiredValue]\<rparr>)
     \<and> (\<not> py_eq (shadow_value s) v \<longrightarrow>
          shadow_value (change_shadow_value client v s) = v \<and>
          take 4 (new_effects s (change_shadow_value client v s)) =
            [Print (ChangedLocalValue v), Assign v, Print (UpdatingReported v),
             Call (PublishUpdate (update_request s v))] \<and>
          published (new_effects s (change_shadow_value client v s)) = [update_request s v])
     \<and> (published (new_effects s (change_shadow_value client v s)) \<noteq> [] \<longleftrightarrow>
          Print (ChangedLocalValue v) \<in> set (new_effects s (change_shadow_value client v s)))
     \<and> (Print (ChangedLocalValue v) \<in> set (new_effects s (change_shadow_value client v s)) \<longleftrightarrow>
          \<not> py_eq (shadow_value s) v)"
    by (rule change_cases [where s = s and v = v and client = client])
      (simp_all add: new_effects_append)
  from first change_unchanged [OF again, of client'] show ?thesis
    by blast
qed

theorem change_shadow_value_publishes_iff_changed_witness:
  "\<not> py_eq (shadow_value (initial_globals ''thing'' ''color'')) (PStr ''red'')
   \<and> published (new_effects (initial_globals ''thing'' ''color'')
        (change_shadow_value reliable_client (PStr ''red'') (initial_globals ''thing'' ''color'')))
      = [update_request (initial_globals ''thing'' ''color'') (PStr ''red'')]
   \<and> py_eq (shadow_value (change_shadow_value reliable_client (PStr ''red'')
        (initial_globals ''thing'' ''color''))) (PStr ''red'')
   \<and> change_shadow_value reliable_client (PStr ''red'')
        (change_shadow_value reliable_client (PStr ''red'') (initial_globals ''thing'' ''color''))
      = (change_shadow_value reliable_client (PStr ''red'') (initial_globals ''thing'' ''color''))
          \<lparr>trace := trace (change_shadow_value reliable_client (PStr ''red'')
                       (initial_globals ''thing'' ''color'')) @
                     [Print (LocalValueAlready (PStr ''red'')), Print EnterDesiredValue]\<rparr>"
  using change_shadow_value_publishes_iff_changed
    [of "initial_globals ''thing'' ''color''" "PStr ''red''" reliable_client reliable_client]
  by (simp add: initial_globals_def change_shadow_value_def print_def emit_def)

section \<open>The answer to the initial query\<close>

text \<open>
  C5. When \<open>shadow_value\<close> is no longer \<open>None\<close> (a delta event or a line from the
  user came first), \<open>on_get_accepted\<close> prints two lines and returns, whatever the
  snapshot holds: the stored value and every other global are as before, nothing is
  assigned and no request is handed to the client.
\<close>

theorem on_get_accepted_ignored_when_initialized:
  "shadow_value s \<noteq> PNone \<Longrightarrow>
   on_get_accepted client response s =
     s\<lparr>trace := trace s @ [Print FinishedGettingInitialState, Print IgnoringInitialQuery]\<rparr>"
  by (simp add: on_get_accepted_def print_eq)

theorem on_get_accepted_ignored_when_initialized_witness:
  "shadow_value ((initial_globals ''thing'' ''color'')\<lparr>shadow_value := PStr ''red''\<rparr>) \<noteq> PNone
   \<and> on_get_accepted reliable_client
        \<lparr>get_state = Some \<lparr>desired = None, reported = Some [(''color'', PStr ''blue'')],
                             delta = Some [(''color'', PStr ''green'')]\<rparr>\<rparr>
        ((initial_globals ''thing'' ''color'')\<lparr>shadow_value := PStr ''red''\<rparr>)
      = (initial_globals ''thing'' ''color'')
          \<lparr>shadow_value := PStr ''red'',
           trace := [Print FinishedGettingInitialState, Print IgnoringInitialQuery]\<rparr>"
  using on_get_accepted_ignored_when_initialized
    [of "(initial_globals ''thing'' ''color'')\<lparr>shadow_value := PStr ''red''\<rparr>" reliable_client
        "\<lparr>get_state = Some \<lparr>desired = None, reported = Some [(''color'', PStr ''blue'')],
                             delta = Some [(''color'', PStr ''green'')]\<rparr>\<rparr>"]
  by (simp add: initial_globals_def)

lemma change_after_prints:
  assumes "trace s1 = trace s @ ps" and "published ps = []"
    and "shadow_value s1 = shadow_value s" and "shadow_property s1 = shadow_property s"
    and "thing_name s1 = thing_name s"
  shows "shadow_value (change_shadow_value client v s1) =
           (if py_eq (shadow_value s) v then shadow_value s else v)
         \<and> published (new_effects s (change_shadow_value client v s1)) =
             (if py_eq (shadow_value s) v then [] else [update_request s v])"
proof -
  obtain es where es: "trace (change_shadow_value client v s1) = trace s1 @ es"
    using change_trace by blast
  have "new_effects s (change_shadow_value client v s1) =
          ps @ new_effects s1 (change_shadow_value client v s1)"
    using es assms(1) by (simp add: new_effects_def)
  then show ?thesis
    using change_summary [of client v s1] assms by (simp add: published_append)
qed

lemma truthy_dict_get_nonempty: "truthy (dict_get d k) \<Longrightarrow> d \<noteq> []"
  by (auto simp: dict_get_def)

lemma truthy_not_PNone: "truthy v \<Longrightarrow> v \<noteq> PNone"
  by auto

lemma py_eq_default: "py_eq v SHADOW_VALUE_DEFAULT \<longleftrightarrow> v = SHADOW_VALUE_DEFAULT"
  by (cases v) (auto simp: SHADOW_VALUE_DEFAULT_def)

lemma py_eq_PStr: "py_eq v (PStr x) \<longleftrightarrow> v = PStr x"
  by (cases v) auto

section \<open>Delta events\<close>

text \<open>
  C1, as the claim states it, fails: the handler hands the adopted value to
  \<open>change_shadow_value\<close>, which returns before building a request when the value
  equals the stored one. After the user has typed red, a delta event that asks for red
  publishes nothing.
\<close>

theorem delta_equal_to_current_not_published:
  "shadow_value (change_shadow_value reliable_client (PStr ''red'') sample_start) = PStr ''red''
   \<and> map_of [(''color'', PStr ''red'')] (shadow_property sample_start) = Some (PStr ''red'')
   \<and> published
        (new_effects (change_shadow_value reliable_client (PStr ''red'') sample_start)
           (on_delta_event reliable_client \<lparr>delta_state = Some [(''color'', PStr ''red'')]\<rparr>
              (change_shadow_value reliable_client (PStr ''red'') sample_start))) = []"
  by (simp add: initial_globals_def change_shadow_value_def on_delta_event_def print_def
      emit_def reliable_client_def new_effects_def)

text \<open>
  C1 amended. A delta event that mentions the tracked property is routed through the
  change path with the adopted value: the default when the property carries the
  deletion marker, the given value otherwise. The adopted value is published exactly
  when it differs from the stored one, and the stored value is then the adopted one.
\<close>

theorem on_delta_event_change_path:
  assumes "delta_state ev = Some d" and "map_of d (shadow_property s) = Some v"
  shows
    "on_delta_event client ev s =
       change_shadow_value client (if v = PNone then SHADOW_VALUE_DEFAULT else v)
         (print (if v = PNone then DeltaReportsDeleted else DeltaReportsDesired v)
            (print ReceivedDeltaEvent s))
     \<and> published (new_effects s (on_delta_event client ev s)) =
         (if py_eq (shadow_value s) (if v = PNone then SHADOW_VALUE_DEFAULT else v) then []
          else [update_request s (if v = PNone then SHADOW_VALUE_DEFAULT else v)])
     \<and> shadow_value (on_delta_event client ev s) =
         (if py_eq (shadow_value s) (if v = PNone then SHADOW_VALUE_DEFAULT else v)
          then shadow_value s else (if v = PNone then SHADOW_VALUE_DEFAULT else v))"
proof -
  let ?a = "if v = PNone then SHADOW_VALUE_DEFAULT else v"
  let ?m = "if v = PNone then DeltaReportsDeleted else DeltaReportsDesired v"
  let ?s1 = "print ?m (print ReceivedDeltaEvent s)"
  have eq: "on_delta_event client ev s = change_shadow_value client ?a ?s1"
    using assms by (simp add: on_delta_event_def Let_def print_eq)
  have "trace ?s1 = trace s @ [Print ReceivedDeltaEvent, Print ?m]"
    by (simp add: print_eq)
  moreover have "published [Print ReceivedDeltaEvent, Print ?m] = []"
    by simp
  ultimately show ?thesis
    using change_after_prints [of ?s1 s "[Print ReceivedDeltaEvent, Print ?m]" client ?a]
    by (simp add: eq print_eq)
qed

theorem on_delta_event_change_path_witness:
  "delta_state \<lparr>delta_state = Some [(''color'', PNone)]\<rparr> = Some [(''color'', PNone)]
   \<and> map_of [(''color'', PNone)] (shadow_property sample_start) = Some PNone
   \<and> published (new_effects sample_start
        (on_delta_event reliable_client \<lparr>delta_state = Some [(''color'', PNone)]\<rparr> sample_start))
      = [update_request sample_start (PStr ''off'')]
   \<and> shadow_value
        (on_delta_event reliable_client \<lparr>delta_state = Some [(''color'', PNone)]\<rparr> sample_start)
      = PStr ''off''"
  using on_delta_event_change_path
    [of "\<lparr>delta_state = Some [(''color'', PNone)]\<rparr>" "[(''color'', PNone)]" sample_start PNone
        reliable_client]
  by (simp add: initial_globals_def SHADOW_VALUE_DEFAULT_def on_delta_event_def
      change_shadow_value_def print_def emit_def reliable_client_def new_effects_def)

section \<open>Shutdown\<close>

text \<open>
  C4, as the claim states it, fails: \<open>exit\<close> has no guard, so a second call asks the
  connection to disconnect a second time. A rejected update followed by the user's quit
  issues two disconnect requests.
\<close>

theorem exit_twice_disconnects_twice:
  "disconnects (trace (exit UserHasQuit (exit (UpdateRequestRejected 500 ''rejected'') sample_start)))
     = 2"
  by (simp add: initial_globals_def exit_eq)

text \<open>
  C4 amended. Every call of the shutdown routine prints its two lines, sets
  \<open>disconnect_called\<close> and issues one disconnect request, whether or not the flag
  was set before: a sequence of calls issues as many disconnect requests as it has
  calls, and the flag, once set, stays set through further calls.
\<close>

theorem exit_disconnects_every_call:
  "disconnect_called (exit msg s)
   \<and> new_effects s (exit msg s) = [Print (ExitingSample msg), Print Disconnecting, Call Disconnect]
   \<and> disconnects (trace (fold exit msgs s)) = disconnects (trace s) + length msgs
   \<and> disconnect_called (fold exit msgs (exit msg s))"
proof -
  have n: "disconnects (trace (fold exit ms t)) = disconnects (trace t) + length ms" for ms t
    by (induction ms arbitrary: t) (simp_all add: exit_eq disconnects_append)
  have f: "disconnect_called t \<Longrightarrow> disconnect_called (fold exit ms t)" for ms t
    by (induction ms arbitrary: t) (simp_all add: exit_eq)
  show ?thesis
    using n [of msgs s] f [of "exit msg s" msgs]
    by (simp add: exit_eq new_effects_append)
qed

section \<open>The rejected initial query\<close>

text \<open>
  C6, as the claim states it, fails in its first half: a 404 hands the default to
  \<open>change_shadow_value\<close>, which publishes nothing when the stored value is already
  the default. After a delta event has set the value to off, a rejection with code 404
  publishes nothing.
\<close>

theorem get_rejected_404_default_already_stored:
  "shadow_value
     (on_delta_event reliable_client \<lparr>delta_state = Some [(''color'', PStr ''off'')]\<rparr> sample_start)
     = SHADOW_VALUE_DEFAULT
   \<and> published
        (new_effects
           (on_delta_event reliable_client \<lparr>delta_state = Some [(''color'', PStr ''off'')]\<rparr>
              sample_start)
           (on_get_rejected reliable_client \<lparr>code = 404, message = ''No shadow exists''\<rparr>
              (on_delta_event reliable_client \<lparr>delta_state = Some [(''color'', PStr ''off'')]\<rparr>
                 sample_start))) = []"
  by (simp add: initial_globals_def change_shadow_value_def on_delta_event_def print_def
      emit_def reliable_client_def new_effects_def on_get_rejected_def SHADOW_VALUE_DEFAULT_def)

text \<open>
  C6 amended. A rejection with code 404 hands the configured default to the change
  path, the call that \<open>on_get_accepted\<close> makes when the property is absent: the
  default is stored, and it is published unless the stored value was the default
  already. Any other code invokes the shutdown routine with the code and the message of
  the error; the stored value stays, one disconnect is requested and no update request
  goes out.
\<close>

theorem on_get_rejected_default_or_shutdown:
  "(code error = 404 \<longrightarrow>
      on_get_rejected client error s =
        change_shadow_value client SHADOW_VALUE_DEFAULT (print ThingHasNoShadow s)
      \<and> shadow_value (on_get_rejected client error s) = SHADOW_VALUE_DEFAULT
      \<and> published (new_effects s (on_get_rejected client error s)) =
          (if shadow_value s = SHADOW_VALUE_DEFAULT then []
           else [update_request s SHADOW_VALUE_DEFAULT]))
   \<and> (code error \<noteq> 404 \<longrightarrow>
      on_get_rejected client error s =
        exit (GetRequestRejected (code error) (message error)) s
      \<and> shadow_value (on_get_rejected client error s) = shadow_value s
      \<and> disconnects (new_effects s (on_get_rejected client error s)) = 1
      \<and> published (new_effects s (on_get_rejected client error s)) = [])
   \<and> get_accepted_default client s =
       change_shadow_value client SHADOW_VALUE_DEFAULT (print ShadowLacksProperty s)"
proof -
  have "trace (print ThingHasNoShadow s) = trace s @ [Print ThingHasNoShadow]"
    by (simp add: print_eq)
  moreover have "published [Print ThingHasNoShadow] = []"
    by simp
  ultimately have
    "shadow_value (change_shadow_value client SHADOW_VALUE_DEFAULT (print ThingHasNoShadow s)) =
       SHADOW_VALUE_DEFAULT
     \<and> published (new_effects s
          (change_shadow_value client SHADOW_VALUE_DEFAULT (print ThingHasNoShadow s))) =
         (if shadow_value s = SHADOW_VALUE_DEFAULT then []
          else [update_request s SHADOW_VALUE_DEFAULT])"
    using change_after_prints
      [of "print ThingHasNoShadow s" s "[Print ThingHasNoShadow]" client SHADOW_VALUE_DEFAULT]
    by (simp add: print_eq py_eq_default)
  then show ?thesis
    by (simp add: on_get_rejected_def get_accepted_default_def exit_eq new_effects_append)
qed

theorem on_get_rejected_default_or_shutdown_witness:
  "code \<lparr>code = 404, message = ''No shadow exists''\<rparr> = 404
   \<and> published (new_effects sample_start
        (on_get_rejected reliable_client \<lparr>code = 404, message = ''No shadow exists''\<rparr> sample_start))
      = [update_request sample_start (PStr ''off'')]
   \<and> code \<lparr>code = 500, message = ''Internal''\<rparr> \<noteq> 404
   \<and> on_get_rejected reliable_client \<lparr>code = 500, message = ''Internal''\<rparr> sample_start
      = exit (GetRequestRejected 500 ''Internal'') sample_start
   \<and> published (new_effects sample_start
        (on_get_rejected reliable_client \<lparr>code = 500, message = ''Internal''\<rparr> sample_start)) = []"
  using on_get_rejected_default_or_shutdown
      [of "\<lparr>code = 404, message = ''No shadow exists''\<rparr>" reliable_client sample_start]
    on_get_rejected_default_or_shutdown
      [of "\<lparr>code = 500, message = ''Internal''\<rparr>" reliable_client sample_start]
  by (simp add: initial_globals_def SHADOW_VALUE_DEFAULT_def on_get_rejected_def exit_def
      change_shadow_value_def print_def emit_def reliable_client_def new_effects_def)

section \<open>The three branches of the initial query\<close>

lemma on_get_accepted_branches:
  assumes "shadow_value s = PNone"
  shows "on_get_accepted client response s =
    (if truthy (case get_state response of None \<Rightarrow> PNone
                | Some st \<Rightarrow> section_value (delta st) (shadow_property s))
     then change_shadow_value client
            (case get_state response of None \<Rightarrow> PNone
             | Some st \<Rightarrow> section_value (delta st) (shadow_property s))
            (print (ShadowContainsDelta
                      (case get_state response of None \<Rightarrow> PNone
                       | Some st \<Rightarrow> section_value (delta st) (shadow_property s)))
               (print FinishedGettingInitialState s))
     else if truthy (case get_state response of None \<Rightarrow> PNone
                     | Some st \<Rightarrow> section_value (reported st) (shadow_property s))
     then set_local_value_due_to_initial_query
            (case get_state response of None \<Rightarrow> PNone
             | Some st \<Rightarrow> section_value (reported st) (shadow_property s))
            (print (ShadowContainsReported
                      (case get_state response of None \<Rightarrow> PNone
                       | Some st \<Rightarrow> section_value (reported st) (shadow_property s)))
               (print FinishedGettingInitialState s))
     else change_shadow_value client SHADOW_VALUE_DEFAULT
            (print ShadowLacksProperty (print FinishedGettingInitialState s)))"
  using assms
  by (auto simp add: on_get_accepted_def get_accepted_delta_def get_accepted_reported_def
      get_accepted_default_def section_value_def print_eq Let_def
      split: option.splits dest: truthy_dict_get_nonempty)

lemma on_get_accepted_cases:
  assumes "shadow_value s = PNone"
  shows
    "(let dv = (case get_state response of None \<Rightarrow> PNone
                | Some st \<Rightarrow> section_value (delta st) (shadow_property s));
          rv = (case get_state response of None \<Rightarrow> PNone
                | Some st \<Rightarrow> section_value (reported st) (shadow_property s));
          s0 = print FinishedGettingInitialState s;
          s' = on_get_accepted client response s
      in if truthy dv then
           s' = change_shadow_value client dv (print (ShadowContainsDelta dv) s0)
           \<and> shadow_value s' = dv
           \<and> published (new_effects s s') = [update_request s dv]
         else if truthy rv then
           s' = s\<lparr>shadow_value := rv,
                  trace := trace s @ [Print FinishedGettingInitialState,
                                      Print (ShadowContainsReported rv), Assign rv,
                                      Print EnterDesiredValue]\<rparr>
         else
           s' = change_shadow_value client SHADOW_VALUE_DEFAULT (print ShadowLacksProperty s0)
           \<and> shadow_value s' = SHADOW_VALUE_DEFAULT
           \<and> published (new_effects s s') = [update_request s SHADOW_VALUE_DEFAULT])"
proof -
  define dv where "dv = (case get_state response of None \<Rightarrow> PNone
                | Some st \<Rightarrow> section_value (delta st) (shadow_property s))"
  define rv where "rv = (case get_state response of None \<Rightarrow> PNone
                | Some st \<Rightarrow> section_value (reported st) (shadow_property s))"
  define s0 where "s0 = print FinishedGettingInitialState s"
  have eq: "on_get_accepted client response s =
    (if truthy dv then change_shadow_value client dv (print (ShadowContainsDelta dv) s0)
     else if truthy rv then
       set_local_value_due_to_initial_query rv (print (ShadowContainsReported rv) s0)
     else change_shadow_value client SHADOW_VALUE_DEFAULT (print ShadowLacksProperty s0))"
    unfolding dv_def rv_def s0_def by (rule on_get_accepted_branches [OF assms])
  have after: "shadow_value (change_shadow_value client v (print m s0)) = v
       \<and> published (new_effects s (change_shadow_value client v (print m s0))) =
           [update_request s v]" if "v \<noteq> PNone" for v m
  proof -
    have "trace (print m s0) = trace s @ [Print FinishedGettingInitialState, Print m]"
      by (simp add: s0_def print_eq)
    moreover have "published [Print FinishedGettingInitialState, Print m] = []"
      by simp
    ultimately show ?thesis
      using change_after_prints
        [of "print m s0" s "[Print FinishedGettingInitialState, Print m]" client v] assms that
      by (simp add: s0_def print_eq)
  qed
  have rep: "set_local_value_due_to_initial_query rv (print (ShadowContainsReported rv) s0) =
      s\<lparr>shadow_value := rv,
        trace := trace s @ [Print FinishedGettingInitialState,
                            Print (ShadowContainsReported rv), Assign rv,
                            Print EnterDesiredValue]\<rparr>"
    by (simp add: set_local_value_due_to_initial_query_def s0_def print_def emit_def)
  have d: "SHADOW_VALUE_DEFAULT \<noteq> PNone"
    by (simp add: SHADOW_VALUE_DEFAULT_def)
  have "if truthy dv then
           on_get_accepted client response s =
             change_shadow_value client dv (print (ShadowContainsDelta dv) s0)
           \<and> shadow_value (on_get_accepted client response s) = dv
           \<and> published (new_effects s (on_get_accepted client response s)) = [update_request s dv]
         else if truthy rv then
           on_get_accepted client response s =
             s\<lparr>shadow_value := rv,
               trace := trace s @ [Print FinishedGettingInitialState,
                                   Print (ShadowContainsReported rv), Assign rv,
                                   Print EnterDesiredValue]\<rparr>
         else
           on_get_accepted client response s =
             change_shadow_value client SHADOW_VALUE_DEFAULT (print ShadowLacksProperty s0)
           \<and> shadow_value (on_get_accepted client response s) = SHADOW_VALUE_DEFAULT
           \<and> published (new_effects s (on_get_accepted client response s)) =
               [update_request s SHADOW_VALUE_DEFAULT]"
    using after [of dv "ShadowContainsDelta dv"] after [OF d, of ShadowLacksProperty]
      truthy_not_PNone [of dv] rep
    by (simp add: eq)
  then show ?thesis
    unfolding Let_def dv_def rv_def s0_def .
qed




section \<open>Empty strings\<close>

text \<open>
  C10. An empty string is a value to \<open>on_delta_event\<close> and no value to
  \<open>on_get_accepted\<close>. A delta event that maps the tracked property to the empty
  string goes through the change path with the empty string (only \<open>null\<close> brings the
  default): the empty string is stored, and published unless it was stored already.
  A successful initial query, handled while the store is uninitialized, whose delta
  section maps the property to the empty string behaves as if the snapshot had no delta
  section, which is the reported branch; and when the delta section gives no usable
  value and the reported section maps the property to the empty string, the default is
  stored and published.
\<close>

theorem empty_string_delta_event_versus_initial_query:
  "(delta_state ev = Some d \<and> map_of d (shadow_property s) = Some (PStr '''') \<longrightarrow>
      on_delta_event client ev s =
        change_shadow_value client (PStr '''')
          (print (DeltaReportsDesired (PStr '''')) (print ReceivedDeltaEvent s))
      \<and> shadow_value (on_delta_event client ev s) = PStr ''''
      \<and> published (new_effects s (on_delta_event client ev s)) =
          (if shadow_value s = PStr '''' then [] else [update_request s (PStr '''')]))
   \<and> (shadow_value s = PNone \<and> get_state response = Some st \<and> delta st = Some dd
        \<and> map_of dd (shadow_property s) = Some (PStr '''') \<longrightarrow>
      on_get_accepted client response s =
        get_accepted_reported client st (print FinishedGettingInitialState s)
      \<and> on_get_accepted client response s =
          on_get_accepted client \<lparr>get_state = Some (st\<lparr>delta := None\<rparr>)\<rparr> s)
   \<and> (shadow_value s = PNone \<and> get_state response = Some st
        \<and> \<not> truthy (section_value (delta st) (shadow_property s))
        \<and> reported st = Some r \<and> map_of r (shadow_property s) = Some (PStr '''') \<longrightarrow>
      on_get_accepted client response s =
        get_accepted_default client (print FinishedGettingInitialState s)
      \<and> shadow_value (on_get_accepted client response s) = SHADOW_VALUE_DEFAULT
      \<and> published (new_effects s (on_get_accepted client response s)) =
          [update_request s SHADOW_VALUE_DEFAULT])"
proof (intro conjI impI)
  assume a: "delta_state ev = Some d \<and> map_of d (shadow_property s) = Some (PStr '''')"
  let ?s1 = "print (DeltaReportsDesired (PStr '''')) (print ReceivedDeltaEvent s)"
  show eq: "on_delta_event client ev s = change_shadow_value client (PStr '''') ?s1"
    using a by (simp add: on_delta_event_def Let_def print_eq)
  have "trace ?s1 = trace s @ [Print ReceivedDeltaEvent, Print (DeltaReportsDesired (PStr ''''))]"
    by (simp add: print_eq)
  moreover have "published [Print ReceivedDeltaEvent, Print (DeltaReportsDesired (PStr ''''))] = []"
    by simp
  ultimately have c: "shadow_value (change_shadow_value client (PStr '''') ?s1) =
           (if py_eq (shadow_value s) (PStr '''') then shadow_value s else PStr '''')
         \<and> published (new_effects s (change_shadow_value client (PStr '''') ?s1)) =
             (if py_eq (shadow_value s) (PStr '''') then [] else [update_request s (PStr '''')])"
    using change_after_prints
      [of ?s1 s "[Print ReceivedDeltaEvent, Print (DeltaReportsDesired (PStr ''''))]" client
          "PStr ''''"]
    by (simp add: print_eq)
  show "shadow_value (on_delta_event client ev s) = PStr ''''"
    using c by (simp add: eq py_eq_PStr)
  show "published (new_effects s (on_delta_event client ev s)) =
          (if shadow_value s = PStr '''' then [] else [update_request s (PStr '''')])"
    using c by (simp add: eq py_eq_PStr)
next
  assume a: "shadow_value s = PNone \<and> get_state response = Some st \<and> delta st = Some dd
        \<and> map_of dd (shadow_property s) = Some (PStr '''')"
  then show r: "on_get_accepted client response s =
        get_accepted_reported client st (print FinishedGettingInitialState s)"
    by (simp add: on_get_accepted_def get_accepted_delta_def dict_get_def print_eq)
  show "on_get_accepted client response s =
          on_get_accepted client \<lparr>get_state = Some (st\<lparr>delta := None\<rparr>)\<rparr> s"
    using a
    by (simp add: r)
      (simp add: on_get_accepted_def get_accepted_delta_def get_accepted_reported_def print_eq
        Let_def)
next
  assume a: "shadow_value s = PNone \<and> get_state response = Some st
        \<and> \<not> truthy (section_value (delta st) (shadow_property s))
        \<and> reported st = Some r \<and> map_of r (shadow_property s) = Some (PStr '''')"
  then have dv: "\<not> truthy (case get_state response of None \<Rightarrow> PNone
                | Some st \<Rightarrow> section_value (delta st) (shadow_property s))"
    and rv: "\<not> truthy (case get_state response of None \<Rightarrow> PNone
                | Some st \<Rightarrow> section_value (reported st) (shadow_property s))"
    by (simp_all add: section_value_def dict_get_def)
  have s: "shadow_value s = PNone"
    using a by simp
  show "on_get_accepted client response s =
        get_accepted_default client (print FinishedGettingInitialState s)"
    using on_get_accepted_branches [OF s, of client response] dv rv
    by (simp add: get_accepted_default_def)
  have tb: "on_get_accepted client response s =
        change_shadow_value client SHADOW_VALUE_DEFAULT
          (print ShadowLacksProperty (print FinishedGettingInitialState s))
      \<and> shadow_value (on_get_accepted client response s) = SHADOW_VALUE_DEFAULT
      \<and> published (new_effects s (on_get_accepted client response s)) =
          [update_request s SHADOW_VALUE_DEFAULT]"
    by (rule on_get_accepted_cases
        [OF s, of response client, unfolded Let_def if_not_P [OF dv] if_not_P [OF rv]])
  from tb show "shadow_value (on_get_accepted client response s) = SHADOW_VALUE_DEFAULT"
    by (elim conjE)
  from tb show "published (new_effects s (on_get_accepted client response s)) =
          [update_request s SHADOW_VALUE_DEFAULT]"
    by (elim conjE)
qed

theorem empty_string_delta_event_versus_initial_query_witness:
  "on_delta_event reliable_client \<lparr>delta_state = Some [(''color'', PStr '''')]\<rparr> sample_start
     = sample_start
         \<lparr>shadow_value := PStr '''',
          trace := [Print ReceivedDeltaEvent, Print (DeltaReportsDesired (PStr '''')),
                    Print (ChangedLocalValue (PStr '''')), Assign (PStr ''''),
                    Print (UpdatingReported (PStr '''')),
                    Call (PublishUpdate (update_request sample_start (PStr '''')))]\<rparr>
   \<and> on_get_accepted reliable_client
        \<lparr>get_state = Some \<lparr>desired = None, reported = Some [(''color'', PStr ''blue'')],
                             delta = Some [(''color'', PStr '''')]\<rparr>\<rparr> sample_start
      = on_get_accepted reliable_client
          \<lparr>get_state = Some \<lparr>desired = None, reported = Some [(''color'', PStr ''blue'')],
                               delta = None\<rparr>\<rparr> sample_start
   \<and> shadow_value
        (on_get_accepted reliable_client
           \<lparr>get_state = Some \<lparr>desired = None, reported = Some [(''color'', PStr '''')],
                                delta = None\<rparr>\<rparr> sample_start) = PStr ''off''
   \<and> published
        (new_effects sample_start
           (on_get_accepted reliable_client
              \<lparr>get_state = Some \<lparr>desired = None, reported = Some [(''color'', PStr '''')],
                                   delta = None\<rparr>\<rparr> sample_start))
      = [update_request sample_start (PStr ''off'')]"
  using
    empty_string_delta_event_versus_initial_query
      [of "\<lparr>delta_state = Some [(''color'', PStr '''')]\<rparr>" "[(''color'', PStr '''')]"
          sample_start reliable_client
          "\<lparr>get_state = Some \<lparr>desired = None, reported = Some [(''color'', PStr ''blue'')],
                               delta = Some [(''color'', PStr '''')]\<rparr>\<rparr>"
          "\<lparr>desired = None, reported = Some [(''color'', PStr ''blue'')],
            delta = Some [(''color'', PStr '''')]\<rparr>"
          "[(''color'', PStr '''')]" "[(''color'', PStr ''blue'')]"]
    empty_string_delta_event_versus_initial_query
      [of "\<lparr>delta_state = None\<rparr>" "[]" sample_start reliable_client
          "\<lparr>get_state = Some \<lparr>desired = None, reported = Some [(''color'', PStr '''')],
                               delta = None\<rparr>\<rparr>"
          "\<lparr>desired = None, reported = Some [(''color'', PStr '''')], delta = None\<rparr>"
          "[]" "[(''color'', PStr '''')]"]
  by (simp add: initial_globals_def section_value_def dict_get_def SHADOW_VALUE_DEFAULT_def
      on_delta_event_def on_get_accepted_def get_accepted_delta_def get_accepted_reported_def
      get_accepted_default_def set_local_value_due_to_initial_query_def Let_def
      change_shadow_value_def print_def emit_def reliable_client_def new_effects_def)

section \<open>Invariants of every sequence of operations\<close>

lemma assigned_before_publish_append:
  "assigned_before_publish p latest xs \<Longrightarrow> (\<And>l. assigned_before_publish p l ys) \<Longrightarrow>
   assigned_before_publish p latest (xs @ ys)"
  by (induction p latest xs rule: assigned_before_publish.induct) simp_all


lemma orderly_refl: "orderly_step s s"
  by (simp add: orderly_step_def)

lemma orderly_trans:
  assumes "orderly_step s s1" and "orderly_step s1 s2"
  shows "orderly_step s s2"
proof -
  obtain es1 where 1: "trace s1 = trace s @ es1"
      "\<And>l. assigned_before_publish (shadow_property s) l es1"
    using assms(1) by (auto simp: orderly_step_def)
  have p: "shadow_property s1 = shadow_property s"
    using assms(1) by (simp add: orderly_step_def)
  obtain es2 where 2: "trace s2 = trace s1 @ es2"
      "\<And>l. assigned_before_publish (shadow_property s) l es2"
    using assms(2) p by (auto simp: orderly_step_def)
  have t: "trace s2 = trace s @ (es1 @ es2)"
    using 1(1) 2(1) by simp
  have "assigned_before_publish (shadow_property s) l (es1 @ es2)" for l
    using 1(2) 2(2) by (rule assigned_before_publish_append)
  then have a: "\<forall>l. assigned_before_publish (shadow_property s) l (es1 @ es2)"
    by simp
  have q: "shadow_property s2 = shadow_property s"
    using assms by (simp add: orderly_step_def)
  have v: "shadow_value s \<noteq> PNone \<longrightarrow> shadow_value s2 \<noteq> PNone"
    using assms by (simp add: orderly_step_def)
  from t a have "\<exists>es. trace s2 = trace s @ es
      \<and> (\<forall>l. assigned_before_publish (shadow_property s) l es)"
    by blast
  with q v show ?thesis
    by (simp add: orderly_step_def)
qed

lemma orderly_print: "orderly_step s (print m s)"
  by (simp add: orderly_step_def print_eq)

lemma orderly_exit: "orderly_step s (exit msg s)"
  by (simp add: orderly_step_def exit_eq)

lemma orderly_change:
  assumes "v \<noteq> PNone"
  shows "orderly_step s (change_shadow_value client v s)"
  by (rule change_cases [where s = s and v = v and client = client])
    (simp_all add: orderly_step_def assms)

lemma orderly_set_local:
  "v \<noteq> PNone \<Longrightarrow> orderly_step s (set_local_value_due_to_initial_query v s)"
  by (simp add: orderly_step_def set_local_value_due_to_initial_query_def print_def emit_def)

lemma default_not_PNone: "SHADOW_VALUE_DEFAULT \<noteq> PNone"
  by (simp add: SHADOW_VALUE_DEFAULT_def)

lemma orderly_print_change:
  "v \<noteq> PNone \<Longrightarrow> orderly_step s (change_shadow_value client v (print m s))"
  by (rule orderly_trans [OF orderly_print orderly_change])

lemma orderly_print_print: "orderly_step s (print m' (print m s))"
  by (rule orderly_trans [OF orderly_print orderly_print])

lemma orderly_on_delta_event: "orderly_step s (on_delta_event client ev s)"
proof -
  have "orderly_step (print ReceivedDeltaEvent s) (on_delta_event client ev s)"
    by (simp add: on_delta_event_def Let_def orderly_print orderly_print_change
        default_not_PNone split: option.splits)
  with orderly_print show ?thesis
    by (rule orderly_trans)
qed

lemma orderly_get_accepted_default: "orderly_step s (get_accepted_default client s)"
  by (simp add: get_accepted_default_def orderly_print_change default_not_PNone)

lemma orderly_get_accepted_reported: "orderly_step s (get_accepted_reported client st s)"
proof -
  have "orderly_step s (set_local_value_due_to_initial_query v (print m s))"
    if "truthy v" for v m
    by (rule orderly_trans [OF orderly_print orderly_set_local])
      (rule truthy_not_PNone [OF that])
  then show ?thesis
    by (simp add: get_accepted_reported_def orderly_get_accepted_default
        split: option.splits)
qed

lemma orderly_get_accepted_delta: "orderly_step s (get_accepted_delta client st s)"
  by (simp add: get_accepted_delta_def orderly_get_accepted_reported orderly_print_change
      truthy_not_PNone split: option.splits)

lemma orderly_on_get_accepted: "orderly_step s (on_get_accepted client response s)"
proof -
  have "orderly_step (print FinishedGettingInitialState s) (on_get_accepted client response s)"
    by (simp add: on_get_accepted_def Let_def orderly_print orderly_get_accepted_default
        orderly_get_accepted_delta split: option.splits)
  with orderly_print show ?thesis
    by (rule orderly_trans)
qed

lemma orderly_on_get_rejected: "orderly_step s (on_get_rejected client error s)"
  by (simp add: on_get_rejected_def orderly_print_change default_not_PNone orderly_exit)

lemma orderly_on_update_accepted:
  "orderly_step s (case on_update_accepted response s of Inl e \<Rightarrow> s | Inr s' \<Rightarrow> s')"
  by (simp add: on_update_accepted_def orderly_refl orderly_print_print split: option.splits)

lemma orderly_user_input: "orderly_step s (fst (user_input_iteration client r s))"
  by (cases r) (simp_all add: user_input_iteration_def orderly_exit orderly_change)

lemma orderly_on_disconnected: "orderly_step s (fst (on_disconnected return_code s))"
  by (simp add: on_disconnected_def Let_def orderly_step_def print_eq)

lemma orderly_deliver: "orderly_step s (deliver client op s)"
  by (cases op)
    (simp_all add: orderly_on_get_accepted orderly_on_get_rejected orderly_on_delta_event
      orderly_on_update_accepted orderly_user_input orderly_on_disconnected
      on_publish_update_def on_update_rejected_def orderly_exit orderly_print
      split: option.splits)

lemma orderly_run: "orderly_step s (run ops s)"
proof (induction ops arbitrary: s)
  case Nil
  show ?case by (simp add: orderly_refl)
next
  case (Cons a ops)
  obtain client op where a: "a = (client, op)"
    by (cases a)
  show ?case
    unfolding a run.simps
    by (rule orderly_trans [OF orderly_deliver Cons.IH])
qed

lemma run_append: "run (ops1 @ ops2) s = run ops2 (run ops1 s)"
  by (induction ops1 arbitrary: s) auto

text \<open>
  C9. Once \<open>shadow_value\<close> holds a value it is never \<open>None\<close> again: if it is set
  after some operations, it is set after any further delta events, answers to the
  initial query, lines from the user, publish results, update answers, shutdowns and
  disconnect notices, whatever the client does during them.
\<close>

theorem shadow_value_stays_initialized:
  "shadow_value (run ops1 s) \<noteq> PNone \<Longrightarrow> shadow_value (run (ops1 @ ops2) s) \<noteq> PNone"
  using orderly_run [of "run ops1 s" ops2] by (simp add: run_append orderly_step_def)

theorem shadow_value_stays_initialized_witness:
  "shadow_value
     (run [(reliable_client, GetAccepted \<lparr>get_state = None\<rparr>)] sample_start) \<noteq> PNone
   \<and> shadow_value
       (run ([(reliable_client, GetAccepted \<lparr>get_state = None\<rparr>)] @
             [(reliable_client, DeltaEvent \<lparr>delta_state = Some [(''color'', PNone)]\<rparr>),
              (reliable_client, GetRejected \<lparr>code = 500, message = ''Internal''\<rparr>),
              (reliable_client, UserInput (Line ''quit'')),
              (reliable_client, Disconnected 0)])
          sample_start) \<noteq> PNone"
proof -
  have h: "shadow_value
     (run [(reliable_client, GetAccepted \<lparr>get_state = None\<rparr>)] sample_start) \<noteq> PNone"
    by (simp add: initial_globals_def on_get_accepted_def get_accepted_default_def
        change_shadow_value_def print_def emit_def reliable_client_def SHADOW_VALUE_DEFAULT_def)
  from h shadow_value_stays_initialized [OF h] show ?thesis
    by blast
qed

section \<open>The update request\<close>



section \<open>Startup\<close>

lemma change_no_publish_get:
  "Call PublishGet \<in> set (trace (change_shadow_value client v s)) \<longleftrightarrow>
   Call PublishGet \<in> set (trace s)"
  by (rule change_cases [where s = s and v = v and client = client]) simp_all

lemma deliver_no_publish_get:
  "Call PublishGet \<in> set (trace (deliver client op s)) \<longleftrightarrow> Call PublishGet \<in> set (trace s)"
proof (cases op)
  case (GetAccepted response)
  then show ?thesis
    by (simp add: on_get_accepted_def get_accepted_delta_def get_accepted_reported_def
        get_accepted_default_def set_local_value_due_to_initial_query_def Let_def
        change_no_publish_get print_def emit_def split: option.splits)
next
  case (GetRejected error)
  then show ?thesis
    by (simp add: on_get_rejected_def change_no_publish_get print_eq exit_eq)
next
  case (DeltaEvent ev)
  then show ?thesis
    by (simp add: on_delta_event_def Let_def change_no_publish_get print_eq
        split: option.splits)
next
  case (PublishUpdateDone res)
  then show ?thesis
    by (simp add: on_publish_update_def print_eq exit_eq split: option.splits)
next
  case (UpdateAccepted response)
  then show ?thesis
    by (simp add: on_update_accepted_def print_eq split: option.splits)
next
  case (UpdateRejected error)
  then show ?thesis
    by (simp add: on_update_rejected_def exit_eq)
next
  case (UserInput r)
  then show ?thesis
    by (cases r) (simp_all add: user_input_iteration_def change_no_publish_get exit_eq)
next
  case (Disconnected return_code)
  then show ?thesis
    by (simp add: on_disconnected_def Let_def print_eq)
qed

lemma startup_inv_initial: "startup_inv (initial_sys tn sp)"
  by (simp add: startup_inv_def initial_sys_def initial_globals_def)

lemma startup_inv_main:
  "startup_inv y \<Longrightarrow>
   (case main_step (pc y) y of None \<Rightarrow> True | Some y' \<Rightarrow> startup_inv y')"
  by (cases "pc y")
    (simp_all add: startup_inv_def subscriptions_succeeded_def issue_def await_def say_def
      print_eq emit_def exit_eq split: future.splits)

lemma startup_inv_resolve:
  "future_of f y = Pending \<Longrightarrow> startup_inv y \<Longrightarrow> startup_inv (set_future f x y)"
  by (cases f; cases "pc y") (simp_all add: startup_inv_def subscriptions_succeeded_def)

lemma input_thread_after_running:
  "deliverable op y \<Longrightarrow> input_thread_after client op y \<Longrightarrow> input_thread_running y"
  by (cases op) simp_all

lemma startup_inv_deliver:
  assumes "startup_inv y" and "deliverable op y"
  shows "startup_inv (y\<lparr>globs := deliver client op (globs y),
                         input_thread_running := input_thread_after client op y\<rparr>)"
proof (cases "input_thread_after client op y")
  case True
  then have "input_thread_running y"
    using assms(2) by (rule input_thread_after_running [rotated])
  then show ?thesis
    using assms(1) True
    by (cases "pc y")
      (simp_all add: startup_inv_def subscriptions_succeeded_def deliver_no_publish_get)
next
  case False
  then show ?thesis
    using assms(1)
    by (cases "pc y")
      (simp_all add: startup_inv_def subscriptions_succeeded_def deliver_no_publish_get)
qed

lemma startup_inv_step: "startup_inv y \<Longrightarrow> step e y = Some y' \<Longrightarrow> startup_inv y'"
proof (cases e)
  case MainThread
  assume "startup_inv y" "step e y = Some y'"
  then show ?thesis
    using MainThread startup_inv_main [of y] by simp
next
  case (Resolve f res)
  assume "startup_inv y" "step e y = Some y'"
  then show ?thesis
    using Resolve startup_inv_resolve by (auto split: if_splits)
next
  case (Deliver client op)
  assume "startup_inv y" "step e y = Some y'"
  then show ?thesis
    using Deliver startup_inv_deliver by (auto split: if_splits)
qed

lemma startup_inv_exec: "startup_inv y \<Longrightarrow> exec es y = Some y' \<Longrightarrow> startup_inv y'"
proof (induction es arbitrary: y)
  case Nil
  then show ?case by simp
next
  case (Cons e es)
  then show ?case
    by (auto split: option.splits dest: startup_inv_step)
qed

text \<open>
  The part of the startup order that holds in every execution: when the get request has
  gone out, all five subscriptions had succeeded, and the main thread stands after a
  wait only when the future it waited for has succeeded.
\<close>

lemma get_request_after_subscriptions:
  assumes "exec es (initial_sys tn sp) = Some y"
  shows "startup_inv y"
    and "Call PublishGet \<in> set (trace (globs y)) \<Longrightarrow> subscriptions_succeeded y"
    and "input_thread_running y \<Longrightarrow> subscriptions_succeeded y"
  using startup_inv_exec [OF startup_inv_initial assms]
  by (simp_all add: startup_inv_def)

text \<open>
  C8 holds of the get request and fails of the update request. The delta subscription
  is made and awaited first (lines 272 to 277), so \<open>on_delta_event\<close> may run before
  the subscriptions to the update answers are even requested (lines 280 to 290), and it
  publishes an update. In this execution the main thread subscribes to delta events,
  the subscription succeeds, the main thread passes its wait, and a delta event asking
  for red arrives: the update request for red is handed to the client while both
  update subscriptions have not been issued.
\<close>

theorem update_published_before_update_subscriptions:
  "map_option
     (\<lambda>y. (pc y, published (trace (globs y)), update_accepted_subscribed_future y,
            update_rejected_subscribed_future y))
     (exec [MainThread, Resolve DeltaSubscribed None, MainThread,
            Deliver reliable_client (DeltaEvent \<lparr>delta_state = Some [(''color'', PStr ''red'')]\<rparr>)]
        (initial_sys ''thing'' ''color''))
   = Some (SubscribeUpdateAccepted, [update_request sample_start (PStr ''red'')],
           NotIssued, NotIssued)"
  by (simp add: initial_sys_def initial_globals_def issue_def await_def say_def
      on_delta_event_def change_shadow_value_def print_def emit_def reliable_client_def)

end
